theory Spec2Isabelle
  imports Complex_Main
begin

section \<open>The Thorlabs filter-flipper driver (\<^verbatim>\<open>drivers/motion/filter_flipper.py\<close>)\<close>

text \<open>
  The driver is a thin, stateful wrapper around the vendor library. The vendor library
  and the hardware are not part of the program: they are a parameter of the model. What
  the wrapper does to them is recorded as a history of events, and what they answer is a
  function of that history.
\<close>

subsection \<open>Values\<close>

text \<open>
  \<^verbatim>\<open>class Position(Enum): one = 1; two = 2; moving = 0\<close>.
  The members are written with the class name in front, as Python's \<^verbatim>\<open>Position.one\<close>.
\<close>

datatype Position = Position_one | Position_two | Position_moving

fun Position_value :: "Position \<Rightarrow> int" where
  "Position_value Position_one = 1"
| "Position_value Position_two = 2"
| "Position_value Position_moving = 0"

text \<open>
  The exceptions the driver raises, with the message where the source gives one. The
  enumeration's own lookup failure is a \<^verbatim>\<open>ValueError\<close> as well; its message (which
  prints the offending value) is abbreviated.
\<close>

datatype error = ValueError string | Exception string | InstrumentTypeError

text \<open>
  Python numbers (the integers and floats that cross the native boundary) are modelled
  as rationals: the driver only compares, scales and forwards them. What the binding
  does with an argument that is no integer is part of the device.

  \<^verbatim>\<open>Position(position)\<close>: the member with that value, or \<^verbatim>\<open>ValueError\<close>.
\<close>

definition Position_from_value :: "rat \<Rightarrow> error + Position" where
  "Position_from_value v =
     (if v = 1 then Inr Position_one
      else if v = 2 then Inr Position_two
      else if v = 0 then Inr Position_moving
      else Inl (ValueError ''is not a valid Position''))"

text \<open>
  Modelled from the spec: the decorator \<^verbatim>\<open>check_units\<close> (of \<^verbatim>\<open>drivers/util.py\<close>,
  which is not among the sources). The spec has these arguments as durations with units,
  each with its default; so a duration argument is a quantity with a unit of time here,
  the decorator hands it to the method as it is, and an argument left out is the
  method's default (\<^verbatim>\<open>'200ms'\<close>, \<^verbatim>\<open>'100ms'\<close>, \<^verbatim>\<open>'500ms'\<close>) as a quantity.

  \<^verbatim>\<open>q.to('ms').magnitude\<close> and \<^verbatim>\<open>q.to('s').magnitude\<close> are the unit conversions
  of the units library. The library computes them in floating point; here they are exact,
  so they are the library's where its arithmetic is exact too: always for a quantity that
  is in the target unit already, whose magnitude the conversion leaves as it is.
\<close>

datatype time_unit = unit_us | unit_ms | unit_s | unit_min

datatype quantity = Quantity rat time_unit

fun ms_per :: "time_unit \<Rightarrow> rat" where
  "ms_per unit_us = 1 / 1000"
| "ms_per unit_ms = 1"
| "ms_per unit_s = 1000"
| "ms_per unit_min = 60000"

fun to_ms_magnitude :: "quantity \<Rightarrow> rat" where
  "to_ms_magnitude (Quantity m u) = m * ms_per u"

fun to_s_magnitude :: "quantity \<Rightarrow> rat" where
  "to_s_magnitude (Quantity m u) = m * ms_per u / 1000"

text \<open>A keyword argument with a default: \<open>None\<close> when the caller leaves it out.\<close>

definition or_default :: "quantity option \<Rightarrow> quantity \<Rightarrow> quantity" where
  "or_default arg dflt = (case arg of None \<Rightarrow> dflt | Some q \<Rightarrow> q)"


subsection \<open>The native controller and the history of effects\<close>

text \<open>
  One event per call of a method of \<^verbatim>\<open>self._NiceFF\<close> (with the Python argument the
  driver passes), and one per \<^verbatim>\<open>time.sleep\<close> (in seconds).
\<close>

datatype event =
    Open | Close | LoadSettings | StartPolling rat | StopPolling
  | GetPosition | MoveToPosition int | GetTransitTime | SetTransitTime rat
  | Home | Sleep rat

text \<open>
  A device answers a call with a number; the answer may depend on everything that
  happened before, sleeps included. The history passed to it ends with the call that is
  being answered.
\<close>

type_synonym device = "event list \<Rightarrow> rat"

text \<open>The outcome of a method: the value returned or the exception raised, and the history.\<close>

type_synonym 'a outcome = "(error + 'a) \<times> event list"

definition native_call :: "device \<Rightarrow> event \<Rightarrow> event list \<Rightarrow> rat \<times> event list" where
  "native_call dev c tr = (dev (tr @ [c]), tr @ [c])"

text \<open>\<^verbatim>\<open>time.sleep(secs)\<close>: raises \<^verbatim>\<open>ValueError\<close> on a negative length.\<close>

definition sleep :: "rat \<Rightarrow> event list \<Rightarrow> unit outcome" where
  "sleep secs tr =
     (if secs < 0 then (Inl (ValueError ''sleep length must be non-negative''), tr)
      else (Inr (), tr @ [Sleep secs]))"

subsection \<open>The driver object\<close>

text \<open>
  The attributes \<^verbatim>\<open>__init__\<close> and \<^verbatim>\<open>_start_polling\<close> set: the handle
  \<^verbatim>\<open>self._NiceFF\<close>, \<^verbatim>\<open>self.serial\<close>, and \<^verbatim>\<open>self.polling_period\<close>
  (absent until \<^verbatim>\<open>_start_polling\<close> has run).
\<close>

record Filter_Flipper =
  NiceFF :: device
  serial :: string
  polling_period :: "rat option"

text \<open>
  Modelled from the spec: the decorator \<^verbatim>\<open>check_enums\<close> (of \<^verbatim>\<open>drivers/util.py\<close>,
  not among the sources). The spec has the position arguments as \<open>Position\<close> values;
  so a position argument is a \<open>Position\<close> here, handed to the method as it is, and the
  \<^verbatim>\<open>isinstance\<close> test of \<^verbatim>\<open>isValidPosition\<close> holds of it.
\<close>

definition isinstance_Position :: "Position \<Rightarrow> bool" where
  "isinstance_Position position = True"

definition isValidPosition :: "Position \<Rightarrow> bool" where
  "isValidPosition position =
     (let ismoving = (position = Position_moving);
          isposition = isinstance_Position position
      in if ismoving \<or> \<not> isposition then False else True)"

definition open_native :: "Filter_Flipper \<Rightarrow> event list \<Rightarrow> rat outcome" where
  "open_native self tr = (let (r, tr') = native_call (NiceFF self) Open tr in (Inr r, tr'))"

definition close :: "Filter_Flipper \<Rightarrow> event list \<Rightarrow> rat outcome" where
  "close self tr = (let (r, tr') = native_call (NiceFF self) Close tr in (Inr r, tr'))"

text \<open>
  \<^verbatim>\<open>_start_polling\<close>: stores the magnitude in milliseconds and passes it on. The
  result is the updated object and the outcome.
\<close>

definition start_polling ::
  "Filter_Flipper \<Rightarrow> quantity option \<Rightarrow> event list \<Rightarrow> Filter_Flipper \<times> rat outcome" where
  "start_polling self polling_period_arg tr =
     (let p = to_ms_magnitude (or_default polling_period_arg (Quantity 200 unit_ms));
          self' = self\<lparr>polling_period := Some p\<rparr>;
          (r, tr') = native_call (NiceFF self') (StartPolling p) tr
      in (self', (Inr r, tr')))"

definition get_position :: "Filter_Flipper \<Rightarrow> event list \<Rightarrow> Position outcome" where
  "get_position self tr =
     (let (position, tr') = native_call (NiceFF self) GetPosition tr
      in (Position_from_value position, tr'))"

definition move_to :: "Filter_Flipper \<Rightarrow> Position \<Rightarrow> event list \<Rightarrow> rat outcome" where
  "move_to self position tr =
     (if \<not> isValidPosition position then (Inl (ValueError ''Not a valid position''), tr)
      else let (r, tr') = native_call (NiceFF self) (MoveToPosition (Position_value position)) tr
           in (Inr r, tr'))"

definition flip :: "Filter_Flipper \<Rightarrow> event list \<Rightarrow> rat outcome" where
  "flip self tr =
     (case get_position self tr of
        (Inl e, tr') \<Rightarrow> (Inl e, tr')
      | (Inr position, tr') \<Rightarrow>
          if position = Position_one then move_to self Position_two tr'
          else if position = Position_two then move_to self Position_one tr'
          else (Inl (Exception ''Could not flip because the current position is not valid''), tr'))"

definition home :: "Filter_Flipper \<Rightarrow> event list \<Rightarrow> rat outcome" where
  "home self tr = (let (r, tr') = native_call (NiceFF self) Home tr in (Inr r, tr'))"

definition get_transit_time :: "Filter_Flipper \<Rightarrow> event list \<Rightarrow> quantity outcome" where
  "get_transit_time self tr =
     (let (transit_time, tr') = native_call (NiceFF self) GetTransitTime tr
      in (Inr (Quantity transit_time unit_ms), tr'))"


text \<open>
  The polling loop of \<^verbatim>\<open>move_and_wait\<close>:
  \<^verbatim>\<open>while self.get_position() != position: sleep(delay.to('s').magnitude)\<close>.
  It has no bound, so it is a partial function: \<open>None\<close> is the run that never returns.
\<close>

partial_function (option) wait_loop ::
  "Filter_Flipper \<Rightarrow> Position \<Rightarrow> quantity \<Rightarrow> event list \<Rightarrow> unit outcome option" where
  "wait_loop self position delay tr =
     (case get_position self tr of
        (Inl e, tr') \<Rightarrow> Some (Inl e, tr')
      | (Inr p, tr') \<Rightarrow>
          if p \<noteq> position then
            (case sleep (to_s_magnitude delay) tr' of
               (Inl e, tr'') \<Rightarrow> Some (Inl e, tr'')
             | (Inr u, tr'') \<Rightarrow> wait_loop self position delay tr'')
          else Some (Inr (), tr'))"

definition move_and_wait ::
  "Filter_Flipper \<Rightarrow> Position \<Rightarrow> quantity option \<Rightarrow> event list \<Rightarrow> unit outcome option" where
  "move_and_wait self position delay_arg tr =
     (let delay = or_default delay_arg (Quantity 100 unit_ms) in
      case get_position self tr of
        (Inl e, tr1) \<Rightarrow> Some (Inl e, tr1)
      | (Inr current_position, tr1) \<Rightarrow>
          if \<not> isValidPosition position then Some (Inl (ValueError ''Not a valid position''), tr1)
          else if current_position \<noteq> position then
            (case get_transit_time self tr1 of
               (Inl e, tr2) \<Rightarrow> Some (Inl e, tr2)
             | (Inr transit_time, tr2) \<Rightarrow>
                 (case move_to self position tr2 of
                    (Inl e, tr3) \<Rightarrow> Some (Inl e, tr3)
                  | (Inr r, tr3) \<Rightarrow>
                      (case sleep (to_s_magnitude transit_time) tr3 of
                         (Inl e, tr4) \<Rightarrow> Some (Inl e, tr4)
                       | (Inr u, tr4) \<Rightarrow> wait_loop self position delay tr4)))
          else Some (Inr (), tr1))"

text \<open>
  \<^verbatim>\<open>__init__\<close>. \<open>Flipper\<close> is \<^verbatim>\<open>NiceFilterFlipper.Flipper\<close>: it makes the handle
  for a serial number, without calling the library. The return values of the three
  native calls are dropped.
\<close>

definition init ::
  "(string \<Rightarrow> device) \<Rightarrow> string \<Rightarrow> quantity option \<Rightarrow> event list \<Rightarrow> Filter_Flipper outcome" where
  "init Flipper serial_arg polling_period_arg tr =
     (let self = \<lparr>NiceFF = Flipper serial_arg, serial = serial_arg, polling_period = None\<rparr>
      in case open_native self tr of
           (Inl e, tr1) \<Rightarrow> (Inl e, tr1)
         | (Inr r1, tr1) \<Rightarrow>
             (let (r2, tr2) = native_call (NiceFF self) LoadSettings tr1;
                  (self', out) = start_polling self polling_period_arg tr2
              in case out of
                   (Inl e, tr3) \<Rightarrow> (Inl e, tr3)
                 | (Inr r3, tr3) \<Rightarrow> (Inr self', tr3)))"

text \<open>
  \<^verbatim>\<open>_instrument(params)\<close>: the dictionary \<^verbatim>\<open>d\<close> is empty exactly when
  \<^verbatim>\<open>params\<close> has no key \<^verbatim>\<open>'ff_serial'\<close>; otherwise it holds the serial number.
\<close>

definition instrument ::
  "(string \<Rightarrow> device) \<Rightarrow> (string \<rightharpoonup> string) \<Rightarrow> event list \<Rightarrow> Filter_Flipper outcome" where
  "instrument Flipper params tr =
     (case params ''ff_serial'' of
        None \<Rightarrow> (Inl InstrumentTypeError, tr)
      | Some sn \<Rightarrow> init Flipper sn None tr)"

subsection \<open>A test double\<close>

text \<open>
  A deterministic controller for the concrete runs below: it starts in position one,
  reports moving for the first \<open>n\<close> position queries after a move command and the
  commanded position from then on, and keeps the transit time it is given (500 at first).
  Its state is the settled position, the queries still to be answered with moving, and
  the transit time.
\<close>

type_synonym fake_state = "rat \<times> nat \<times> rat"

fun fake_step :: "nat \<Rightarrow> fake_state \<Rightarrow> event \<Rightarrow> fake_state" where
  "fake_step n (p, k, t) (MoveToPosition q) = (of_int q, n, t)"
| "fake_step n (p, k, t) GetPosition = (p, k - 1, t)"
| "fake_step n (p, k, t) (SetTransitTime x) = (p, k, x)"
| "fake_step n (p, k, t) other = (p, k, t)"

fun fake_reply :: "fake_state \<Rightarrow> event \<Rightarrow> rat" where
  "fake_reply (p, k, t) GetPosition = (if 0 < k then 0 else p)"
| "fake_reply (p, k, t) GetTransitTime = t"
| "fake_reply (p, k, t) other = 0"

definition fake_device :: "nat \<Rightarrow> device" where
  "fake_device n tr =
     (case rev tr of
        [] \<Rightarrow> 0
      | c # earlier \<Rightarrow> fake_reply (foldl (fake_step n) (1, 0, 500) (rev earlier)) c)"

definition fake_flipper :: "nat \<Rightarrow> Filter_Flipper" where
  "fake_flipper n = \<lparr>NiceFF = fake_device n, serial = ''37000001'', polling_period = Some 200\<rparr>"

text \<open>
  The library as seen by the constructor: one attached flipper, serial number 37000001;
  for any other serial number every call answers the error code 2.
\<close>

definition fake_sdk :: "string \<Rightarrow> device" where
  "fake_sdk sn = (if sn = ''37000001'' then fake_device 0 else (\<lambda>tr. 2))"




subsection \<open>The run of \<^verbatim>\<open>move_and_wait\<close>\<close>



section \<open>Properties\<close>

lemmas driver_defs =
  native_call_def get_position_def move_to_def isValidPosition_def isinstance_Position_def
  Position_from_value_def get_transit_time_def sleep_def or_default_def

lemmas fake_defs = fake_flipper_def fake_device_def

subsection \<open>Valid targets\<close>

text \<open>
  C8. \<^verbatim>\<open>isValidPosition\<close> is a function of the position alone (it takes and returns no
  history): it is true of \<open>one\<close> and of \<open>two\<close> and false of \<open>moving\<close>; that is, true
  exactly of the positions other than \<open>moving\<close>.
\<close>

theorem isValidPosition_stable_positions:
  "isValidPosition Position_one \<and> isValidPosition Position_two
   \<and> \<not> isValidPosition Position_moving
   \<and> isValidPosition p = (p \<noteq> Position_moving)"
  by (simp add: isValidPosition_def isinstance_Position_def)

subsection \<open>Reading the position\<close>

text \<open>
  C10. \<^verbatim>\<open>get_position\<close> issues one position query and returns a position only when
  the controller answers 0, 1 or 2: \<open>moving\<close> for 0, \<open>one\<close> for 1, \<open>two\<close> for 2. For
  every other answer (every other integer included) it raises \<^verbatim>\<open>ValueError\<close> and
  returns no position.
\<close>

theorem get_position_native_codes:
  "snd (get_position self tr) = tr @ [GetPosition]
   \<and> (fst (get_position self tr) = Inr p) =
       (NiceFF self (tr @ [GetPosition]) = 0 \<and> p = Position_moving
        \<or> NiceFF self (tr @ [GetPosition]) = 1 \<and> p = Position_one
        \<or> NiceFF self (tr @ [GetPosition]) = 2 \<and> p = Position_two)
   \<and> (\<exists>msg. fst (get_position self tr) = Inl (ValueError msg)) =
       (NiceFF self (tr @ [GetPosition]) \<notin> {0, 1, 2})"
  by (cases p) (auto simp: get_position_def native_call_def Position_from_value_def)

subsection \<open>Moving\<close>

text \<open>
  C2. \<^verbatim>\<open>flip\<close> reads the position once. When the flipper reports \<open>one\<close>, the one
  further native call is the move command to 2; when it reports \<open>two\<close>, the move
  command to 1; in both cases the command's answer is returned. When it reports
  \<open>moving\<close>, \<^verbatim>\<open>flip\<close> raises \<^verbatim>\<open>Exception\<close> and the query is the only native call.
\<close>

theorem flip_moves_to_other_position:
  "(fst (get_position self tr) = Inr Position_one \<longrightarrow>
      flip self tr =
        (Inr (NiceFF self (tr @ [GetPosition, MoveToPosition 2])),
         tr @ [GetPosition, MoveToPosition 2]))
   \<and> (fst (get_position self tr) = Inr Position_two \<longrightarrow>
      flip self tr =
        (Inr (NiceFF self (tr @ [GetPosition, MoveToPosition 1])),
         tr @ [GetPosition, MoveToPosition 1]))
   \<and> (fst (get_position self tr) = Inr Position_moving \<longrightarrow>
      flip self tr =
        (Inl (Exception ''Could not flip because the current position is not valid''),
         tr @ [GetPosition]))"
  by (simp add: flip_def driver_defs split: prod.splits)

theorem flip_moves_to_other_position_witness:
  "flip (fake_flipper 1) [] = (Inr 0, [GetPosition, MoveToPosition 2])
   \<and> flip (fake_flipper 0) [MoveToPosition 2]
       = (Inr 0, [MoveToPosition 2, GetPosition, MoveToPosition 1])
   \<and> flip (fake_flipper 1) [MoveToPosition 2]
       = (Inl (Exception ''Could not flip because the current position is not valid''),
          [MoveToPosition 2, GetPosition])"
proof -
  have at_one: "fst (get_position (fake_flipper 1) []) = Inr Position_one"
    by (simp add: driver_defs fake_defs)
  have at_two: "fst (get_position (fake_flipper 0) [MoveToPosition 2]) = Inr Position_two"
    by (simp add: driver_defs fake_defs)
  have in_transit: "fst (get_position (fake_flipper 1) [MoveToPosition 2]) = Inr Position_moving"
    by (simp add: driver_defs fake_defs)
  from flip_moves_to_other_position [of "fake_flipper 1" "[]"] at_one
  have "flip (fake_flipper 1) [] = (Inr 0, [GetPosition, MoveToPosition 2])"
    by (simp add: fake_defs)
  moreover from flip_moves_to_other_position [of "fake_flipper 0" "[MoveToPosition 2]"] at_two
  have "flip (fake_flipper 0) [MoveToPosition 2]
          = (Inr 0, [MoveToPosition 2, GetPosition, MoveToPosition 1])"
    by (simp add: fake_defs)
  moreover from flip_moves_to_other_position [of "fake_flipper 1" "[MoveToPosition 2]"] in_transit
  have "flip (fake_flipper 1) [MoveToPosition 2]
          = (Inl (Exception ''Could not flip because the current position is not valid''),
             [MoveToPosition 2, GetPosition])"
    by simp
  ultimately show ?thesis by simp
qed

text \<open>
  C3. Whatever the device has done and answers, \<^verbatim>\<open>move_to(Position.moving)\<close> raises
  \<^verbatim>\<open>ValueError\<close> without any native call, and
  \<^verbatim>\<open>move_and_wait(Position.moving, delay)\<close> raises \<^verbatim>\<open>ValueError\<close> for every
  delay, given or left out, after its one position query (it reads the position before
  it checks the target). No move command is issued.
\<close>

theorem moving_is_not_a_target:
  "move_to self Position_moving tr = (Inl (ValueError ''Not a valid position''), tr)
   \<and> move_and_wait self Position_moving delay_arg tr
       = Some (Inl (ValueError
                 (if NiceFF self (tr @ [GetPosition]) = 1 \<or> NiceFF self (tr @ [GetPosition]) = 2
                     \<or> NiceFF self (tr @ [GetPosition]) = 0
                  then ''Not a valid position'' else ''is not a valid Position'')),
               tr @ [GetPosition])"
  by (simp add: move_and_wait_def driver_defs)

text \<open>
  C4. For a target \<open>one\<close> or \<open>two\<close> that the flipper already reports,
  \<^verbatim>\<open>move_and_wait\<close> returns at once: its only native call is the position query, so no
  move command is issued, the transit time is not read and nothing sleeps.
\<close>

theorem move_and_wait_already_there:
  assumes "isValidPosition t" and "fst (get_position self tr) = Inr t"
  shows "move_and_wait self t delay_arg tr = Some (Inr (), tr @ [GetPosition])"
  using assms by (simp add: move_and_wait_def driver_defs split: if_splits)

theorem move_and_wait_already_there_witness:
  "isValidPosition Position_one
   \<and> fst (get_position (fake_flipper 3) []) = Inr Position_one
   \<and> move_and_wait (fake_flipper 3) Position_one (Some (Quantity 100 unit_ms)) []
       = Some (Inr (), [GetPosition])"
proof -
  have v: "isValidPosition Position_one"
    by (simp add: driver_defs)
  have p: "fst (get_position (fake_flipper 3) []) = Inr Position_one"
    by (simp add: driver_defs fake_defs)
  from move_and_wait_already_there [OF v p, of "Some (Quantity 100 unit_ms)"] v p
  show ?thesis by simp
qed

subsection \<open>Waiting for arrival\<close>














subsection \<open>Transit time\<close>



subsection \<open>Polling period\<close>

text \<open>
  C9. \<^verbatim>\<open>_start_polling\<close> is documented to round the period to the nearest
  millisecond. It does not: a period of 200.4 ms is stored and passed to the controller as
  200.4, where the nearest whole millisecond is 200.
\<close>

theorem start_polling_period_not_rounded:
  "snd (snd (start_polling (fake_flipper 0) (Some (Quantity (1002 / 5) unit_ms)) []))
     = [StartPolling (1002 / 5)]
   \<and> polling_period (fst (start_polling (fake_flipper 0) (Some (Quantity (1002 / 5) unit_ms)) []))
     = Some (1002 / 5)
   \<and> round (to_ms_magnitude (Quantity (1002 / 5) unit_ms)) = 200"
proof -
  have r: "round (1002 / 5 :: rat) = 200"
    by (simp add: round_def floor_eq_iff)
  show ?thesis
    by (simp add: r start_polling_def native_call_def or_default_def fake_defs Let_def)
qed

subsection \<open>Closing\<close>

text \<open>
  C6, as the code has it. \<^verbatim>\<open>close\<close> issues exactly one native call, the close call,
  and returns its answer, whatever was called before: the history gains one close call and
  no stop-polling call.
\<close>

theorem close_issues_one_native_close:
  "close self tr = (Inr (NiceFF self (tr @ [Close])), tr @ [Close])
   \<and> count_list (snd (close self tr)) Close = count_list tr Close + 1
   \<and> count_list (snd (close self tr)) StopPolling = count_list tr StopPolling"
  by (simp add: close_def native_call_def)

text \<open>C6 as stated fails: after a move, \<^verbatim>\<open>close\<close> issues the close call and no stop-polling call.\<close>

theorem close_does_not_stop_polling:
  "snd (close (fake_flipper 0) [Open, LoadSettings, StartPolling 200, GetPosition, MoveToPosition 2])
     = [Open, LoadSettings, StartPolling 200, GetPosition, MoveToPosition 2, Close]
   \<and> count_list (snd (close (fake_flipper 0)
         [Open, LoadSettings, StartPolling 200, GetPosition, MoveToPosition 2])) StopPolling = 0"
  by (simp add: close_def native_call_def)

subsection \<open>Construction\<close>

text \<open>
  C7, as the code has it. The constructor does not look the serial number up: for every
  serial number, attached or not, it makes the handle, issues the native open, load-settings
  and start-polling calls, drops their answers and returns the object. The one error of
  construction is \<^verbatim>\<open>InstrumentTypeError\<close>, raised by \<^verbatim>\<open>_instrument\<close> before any
  native call when the parameters have no \<^verbatim>\<open>'ff_serial'\<close> entry; with such an entry
  \<^verbatim>\<open>_instrument\<close> constructs the driver for it.
\<close>

theorem init_always_opens:
  "init Flipper sn pp tr
     = (Inr \<lparr>NiceFF = Flipper sn, serial = sn,
              polling_period = Some (to_ms_magnitude (or_default pp (Quantity 200 unit_ms)))\<rparr>,
        tr @ [Open, LoadSettings,
              StartPolling (to_ms_magnitude (or_default pp (Quantity 200 unit_ms)))])
   \<and> (params ''ff_serial'' = None \<longrightarrow>
        instrument Flipper params tr = (Inl InstrumentTypeError, tr))
   \<and> (params ''ff_serial'' = Some sn \<longrightarrow>
        instrument Flipper params tr = init Flipper sn None tr)"
  by (simp add: init_def instrument_def open_native_def start_polling_def native_call_def Let_def)

theorem init_always_opens_witness:
  "instrument fake_sdk Map.empty [] = (Inl InstrumentTypeError, [])
   \<and> instrument fake_sdk [''ff_serial'' \<mapsto> ''37000001''] []
       = (Inr \<lparr>NiceFF = fake_sdk ''37000001'', serial = ''37000001'', polling_period = Some 200\<rparr>,
          [Open, LoadSettings, StartPolling 200])"
proof -
  have absent: "(Map.empty :: string \<rightharpoonup> string) ''ff_serial'' = None"
    by simp
  have present: "[''ff_serial'' \<mapsto> ''37000001''] ''ff_serial'' = Some ''37000001''"
    by simp
  from init_always_opens [of fake_sdk "''37000001''" None "[]" Map.empty] absent
  have "instrument fake_sdk Map.empty [] = (Inl InstrumentTypeError, [])"
    by simp
  moreover
  from init_always_opens [of fake_sdk "''37000001''" None "[]" "[''ff_serial'' \<mapsto> ''37000001'']"] present
  have "instrument fake_sdk [''ff_serial'' \<mapsto> ''37000001''] []
       = (Inr \<lparr>NiceFF = fake_sdk ''37000001'', serial = ''37000001'', polling_period = Some 200\<rparr>,
          [Open, LoadSettings, StartPolling 200])"
    by (simp add: or_default_def)
  ultimately show ?thesis by simp
qed

text \<open>
  C7 as stated fails: for a serial number that is not attached, whose open call answers an
  error code, the constructor still issues the open call and returns the object.
\<close>

theorem init_unknown_serial_opens:
  "fake_sdk ''00000000'' [Open] = 2
   \<and> init fake_sdk ''00000000'' None []
       = (Inr \<lparr>NiceFF = fake_sdk ''00000000'', serial = ''00000000'', polling_period = Some 200\<rparr>,
          [Open, LoadSettings, StartPolling 200])"
  by (simp add: init_def open_native_def start_polling_def native_call_def or_default_def fake_sdk_def)

end
